theory Spec2Isabelle
  imports Main "HOL-Library.Signed_Division"
begin

section \<open>Run-time failures\<close>

text \<open>
  Go panics are values of the model.  A function of the source that can panic returns
  \<open>panic + 'a\<close>; a function that returns a Go \<open>error\<close> returns \<open>parse_error + 'a\<close>.
  Go's \<open>int\<close> is modelled by the unbounded \<open>int\<close>: every value the scheduler computes
  with is a clock or calendar field, far from the 64-bit limits.
\<close>

datatype panic = DivideByZero | IndexOutOfRange | SliceBoundsOutOfRange

section \<open>Fields, range specs and list specs (crontab.go)\<close>

record field =
  fmin :: int
  fmax :: int
  name :: string

definition minuteField :: field where
  "minuteField = \<lparr>fmin = 0, fmax = 59, name = ''minute''\<rparr>"

definition hourField :: field where
  "hourField = \<lparr>fmin = 0, fmax = 23, name = ''hour''\<rparr>"

definition dayField :: field where
  "dayField = \<lparr>fmin = 1, fmax = 31, name = ''day''\<rparr>"

definition monthField :: field where
  "monthField = \<lparr>fmin = 1, fmax = 12, name = ''month''\<rparr>"

definition weekdayField :: field where
  "weekdayField = \<lparr>fmin = 0, fmax = 6, name = ''weekday''\<rparr>"

record rangeSpec =
  start :: int
  endv :: int
  step :: int

type_synonym listSpec = "rangeSpec list"

definition rangeSpec_wildcard :: "rangeSpec \<Rightarrow> field \<Rightarrow> bool" where
  "rangeSpec_wildcard r f \<longleftrightarrow> step r = 1 \<and> start r = fmin f \<and> endv r = fmax f"

text \<open>
  \<open>r.start <= i && i <= r.end && (i-r.start)%r.step == 0\<close>: the remainder is only
  evaluated when both comparisons hold, and Go's \<open>%\<close> truncates towards zero and
  panics on a zero divisor.
\<close>

definition rangeSpec_matches :: "rangeSpec \<Rightarrow> int \<Rightarrow> panic + bool" where
  "rangeSpec_matches r i =
     (if start r \<le> i \<and> i \<le> endv r
      then (if step r = 0 then Inl DivideByZero else Inr ((i - start r) smod step r = 0))
      else Inr False)"

definition rangeSpec_valid :: "rangeSpec \<Rightarrow> field \<Rightarrow> bool" where
  "rangeSpec_valid r f \<longleftrightarrow> fmin f \<le> start r \<and> start r \<le> endv r \<and> endv r \<le> fmax f"

definition listSpec_wildcard :: "listSpec \<Rightarrow> field \<Rightarrow> bool" where
  "listSpec_wildcard l f = (case l of [r] \<Rightarrow> rangeSpec_wildcard r f | _ \<Rightarrow> False)"

fun listSpec_matches :: "listSpec \<Rightarrow> int \<Rightarrow> panic + bool" where
  "listSpec_matches [] i = Inr False"
| "listSpec_matches (r # rs) i =
     (case rangeSpec_matches r i of
        Inl p \<Rightarrow> Inl p
      | Inr b \<Rightarrow> if b then Inr True else listSpec_matches rs i)"

record Schedule =
  minute :: listSpec
  hour :: listSpec
  day :: listSpec
  month :: listSpec
  weekday :: listSpec

record Entry =
  Schedule :: Schedule
  Command :: string

section \<open>The calendar of package time, for fixed-offset locations\<close>

text \<open>
  A \<open>time.Time\<close> is modelled by its civil fields in its own location together with that
  location.  Locations are fixed-offset zones (\<open>time.UTC\<close>, \<open>time.FixedZone\<close>):
  daylight-saving transitions of a zone database are outside the model.  Years are
  proleptic Gregorian, as in package time.
\<close>

datatype Location = UTC | FixedZone string int

fun zone_offset :: "Location \<Rightarrow> int" where
  "zone_offset UTC = 0"
| "zone_offset (FixedZone n off) = off"

record Time =
  Year :: int
  Month :: int
  Day :: int
  Hour :: int
  Minute :: int
  Second :: int
  Nanosecond :: int
  Location :: Location

definition isLeap :: "int \<Rightarrow> bool" where
  "isLeap y \<longleftrightarrow> y mod 4 = 0 \<and> (y mod 100 \<noteq> 0 \<or> y mod 400 = 0)"

definition days_in_month :: "int \<Rightarrow> int \<Rightarrow> int" where
  "days_in_month y m =
     (if m = 2 then (if isLeap y then 29 else 28)
      else if m = 4 \<or> m = 6 \<or> m = 9 \<or> m = 11 then 30 else 31)"

text \<open>Days from 0001-01-01 to the first of January of year \<open>y\<close>.\<close>

definition days_before_year :: "int \<Rightarrow> int" where
  "days_before_year y = 365 * (y - 1) + (y - 1) div 4 - (y - 1) div 100 + (y - 1) div 400"

text \<open>Days of year \<open>y\<close> before the first of month \<open>m\<close> (the table \<open>daysBefore\<close>).\<close>

definition days_before_month :: "int \<Rightarrow> int \<Rightarrow> int" where
  "days_before_month y m =
     [0, 31, 59, 90, 120, 151, 181, 212, 243, 273, 304, 334] ! nat (m - 1)
       + (if isLeap y \<and> 2 < m then 1 else 0)"

definition days_from_civil :: "int \<Rightarrow> int \<Rightarrow> int \<Rightarrow> int" where
  "days_from_civil y m d = days_before_year y + days_before_month y m + (d - 1)"

text \<open>
  \<open>time.Date\<close> accepts fields outside their usual ranges and normalises them: the
  month overflows into the year, nanoseconds into seconds, seconds into minutes,
  minutes into hours, hours into days, and a day outside its month rolls into the
  following or preceding months.
\<close>

function roll_fwd :: "int \<Rightarrow> int \<Rightarrow> int \<Rightarrow> int \<times> int \<times> int" where
  "roll_fwd y m d =
     (if days_in_month y m < d
      then (if 12 \<le> m then roll_fwd (y + 1) 1 (d - days_in_month y m)
            else roll_fwd y (m + 1) (d - days_in_month y m))
      else (y, m, d))"
  by pat_completeness auto
termination
  by (relation "measure (\<lambda>(y, m, d). nat d)") (auto simp: days_in_month_def split: if_splits)

function roll_back :: "int \<Rightarrow> int \<Rightarrow> int \<Rightarrow> int \<times> int \<times> int" where
  "roll_back y m d =
     (if d < 1
      then (if m \<le> 1 then roll_back (y - 1) 12 (d + days_in_month (y - 1) 12)
            else roll_back y (m - 1) (d + days_in_month y (m - 1)))
      else (y, m, d))"
  by pat_completeness auto
termination
  by (relation "measure (\<lambda>(y, m, d). nat (1 - d))")
     (auto simp: days_in_month_def split: if_splits)

declare roll_fwd.simps [simp del] roll_back.simps [simp del]

definition norm_day :: "int \<Rightarrow> int \<Rightarrow> int \<Rightarrow> int \<times> int \<times> int" where
  "norm_day y m d = (if d < 1 then roll_back y m d else roll_fwd y m d)"

definition Date :: "int \<Rightarrow> int \<Rightarrow> int \<Rightarrow> int \<Rightarrow> int \<Rightarrow> int \<Rightarrow> int \<Rightarrow> Location \<Rightarrow> Time" where
  "Date y mo d h mi s ns l =
     (let y1 = y + (mo - 1) div 12;
          mo1 = (mo - 1) mod 12 + 1;
          s1 = s + ns div 1000000000;
          mi1 = mi + s1 div 60;
          h1 = h + mi1 div 60;
          d1 = d + h1 div 24
      in case norm_day y1 mo1 d1 of
           (y2, mo2, d2) \<Rightarrow>
             \<lparr>Year = y2, Month = mo2, Day = d2, Hour = h1 mod 24, Minute = mi1 mod 60,
              Second = s1 mod 60, Nanosecond = ns mod 1000000000, Location = l\<rparr>)"

definition AddDate :: "Time \<Rightarrow> int \<Rightarrow> int \<Rightarrow> int \<Rightarrow> Time" where
  "AddDate t years months days =
     Date (Year t + years) (Month t + months) (Day t + days)
          (Hour t) (Minute t) (Second t) (Nanosecond t) (Location t)"

text \<open>Durations are nanoseconds.\<close>

definition Minute_ns :: int where
  "Minute_ns = 60000000000"

definition Hour_ns :: int where
  "Hour_ns = 3600000000000"

definition Add :: "Time \<Rightarrow> int \<Rightarrow> Time" where
  "Add t dur =
     Date (Year t) (Month t) (Day t) (Hour t) (Minute t) (Second t) (Nanosecond t + dur)
          (Location t)"

text \<open>Seconds since 0001-01-01 00:00:00 UTC: the instant that comparisons look at.\<close>

definition abs_seconds :: "Time \<Rightarrow> int" where
  "abs_seconds t =
     days_from_civil (Year t) (Month t) (Day t) * 86400
       + Hour t * 3600 + Minute t * 60 + Second t - zone_offset (Location t)"

definition Before :: "Time \<Rightarrow> Time \<Rightarrow> bool" where
  "Before t u \<longleftrightarrow>
     abs_seconds t < abs_seconds u
       \<or> (abs_seconds t = abs_seconds u \<and> Nanosecond t < Nanosecond u)"

text \<open>Sunday is 0; 0001-01-01 is a Monday.\<close>

definition Weekday :: "Time \<Rightarrow> int" where
  "Weekday t = (days_from_civil (Year t) (Month t) (Day t) + 1) mod 7"

text \<open>The zero value \<open>time.Time{}\<close>: 0001-01-01 00:00:00 UTC.\<close>

definition zeroTime :: Time where
  "zeroTime = \<lparr>Year = 1, Month = 1, Day = 1, Hour = 0, Minute = 0, Second = 0,
               Nanosecond = 0, Location = UTC\<rparr>"

definition valid_time :: "Time \<Rightarrow> bool" where
  "valid_time t \<longleftrightarrow>
     1 \<le> Month t \<and> Month t \<le> 12 \<and> 1 \<le> Day t \<and> Day t \<le> days_in_month (Year t) (Month t)
       \<and> 0 \<le> Hour t \<and> Hour t < 24 \<and> 0 \<le> Minute t \<and> Minute t < 60
       \<and> 0 \<le> Second t \<and> Second t < 60
       \<and> 0 \<le> Nanosecond t \<and> Nanosecond t < 1000000000"

section \<open>Schedule evaluation (crontab.go)\<close>

definition dayMatches :: "Schedule \<Rightarrow> Time \<Rightarrow> panic + bool" where
  "dayMatches s t =
     (let dayWildcard = listSpec_wildcard (day s) dayField;
          weekdayWildcard = listSpec_wildcard (weekday s) weekdayField
      in case listSpec_matches (day s) (Day t) of
           Inl p \<Rightarrow> Inl p
         | Inr dayM \<Rightarrow>
             (case listSpec_matches (weekday s) (Weekday t) of
                Inl p \<Rightarrow> Inl p
              | Inr weekdayM \<Rightarrow>
                  if dayWildcard \<or> weekdayWildcard then Inr (dayM \<and> weekdayM)
                  else Inr (dayM \<or> weekdayM)))"

text \<open>
  The labelled loop of \<open>Next\<close>.  The label says where control is: at the head of the
  outer loop (\<open>wrap\<close>), or at the head of one of the four inner loops.  A run that
  never leaves the loops has no result (\<open>None\<close>).
\<close>

datatype label = AtWrap | AtMonth | AtDay | AtHour | AtMinute

partial_function (option) Next_loop ::
  "Schedule \<Rightarrow> Time \<Rightarrow> label \<Rightarrow> Time \<Rightarrow> (panic + Time) option" where
  "Next_loop s horizon l t =
     (case l of
        AtWrap \<Rightarrow>
          if Before t horizon then Next_loop s horizon AtMonth t
          else Some (Inr zeroTime)
      | AtMonth \<Rightarrow>
          (case listSpec_matches (month s) (Month t) of
             Inl p \<Rightarrow> Some (Inl p)
           | Inr b \<Rightarrow>
               if b then Next_loop s horizon AtDay t
               else Next_loop s horizon AtMonth
                      (AddDate (Date (Year t) (Month t) 1 0 0 0 0 (Location t)) 0 1 0))
      | AtDay \<Rightarrow>
          (case dayMatches s t of
             Inl p \<Rightarrow> Some (Inl p)
           | Inr b \<Rightarrow>
               if b then Next_loop s horizon AtHour t
               else (let t' = AddDate (Date (Year t) (Month t) (Day t) 0 0 0 0 (Location t))
                                 0 0 1
                     in if Day t' = 1 then Next_loop s horizon AtWrap t'
                        else Next_loop s horizon AtDay t'))
      | AtHour \<Rightarrow>
          (case listSpec_matches (hour s) (Hour t) of
             Inl p \<Rightarrow> Some (Inl p)
           | Inr b \<Rightarrow>
               if b then Next_loop s horizon AtMinute t
               else (let t' = Add (Date (Year t) (Month t) (Day t) (Hour t) 0 0 0
                                     (Location t)) Hour_ns
                     in if Hour t' = 0 then Next_loop s horizon AtWrap t'
                        else Next_loop s horizon AtHour t'))
      | AtMinute \<Rightarrow>
          (case listSpec_matches (minute s) (Minute t) of
             Inl p \<Rightarrow> Some (Inl p)
           | Inr b \<Rightarrow>
               if b then Some (Inr t)
               else (let t' = Add (Date (Year t) (Month t) (Day t) (Hour t) (Minute t) 0 0
                                     (Location t)) Minute_ns
                     in if Minute t' = 0 then Next_loop s horizon AtWrap t'
                        else Next_loop s horizon AtMinute t')))"

declare Next_loop.simps [code]

definition Next :: "Schedule \<Rightarrow> Time \<Rightarrow> (panic + Time) option" where
  "Next s t =
     (let horizon = AddDate t 8 0 0;
          t1 = Date (Year t) (Month t) (Day t) (Hour t) (Minute t) 0 0 (Location t);
          t2 = Add t1 Minute_ns
      in Next_loop s horizon AtWrap t2)"


section \<open>Strings and numbers of the standard library\<close>

datatype numError = ErrSyntax | ErrRange

definition digit_of :: "char \<Rightarrow> int option" where
  "digit_of c =
     (let n = (of_char c :: int) in if 48 \<le> n \<and> n \<le> 57 then Some (n - 48) else None)"

text \<open>
  \<open>strconv.ParseUint\<close> in base 10 on 64 bits: the digits are read from the left, and the
  first character that is not a digit, or the first overflow, ends the scan.
\<close>

fun parse_uint :: "string \<Rightarrow> int \<Rightarrow> numError + int" where
  "parse_uint [] n = Inr n"
| "parse_uint (c # cs) n =
     (case digit_of c of
        None \<Rightarrow> Inl ErrSyntax
      | Some d \<Rightarrow>
          if 1844674407370955162 \<le> n then Inl ErrRange
          else if 18446744073709551615 < n * 10 + d then Inl ErrRange
          else parse_uint cs (n * 10 + d))"

text \<open>\<open>strconv.Atoi\<close>: an optional sign, then at least one digit; the value fits 64 bits.\<close>

definition Atoi :: "string \<Rightarrow> numError + int" where
  "Atoi s =
     (case s of
        [] \<Rightarrow> Inl ErrSyntax
      | c # cs \<Rightarrow>
          (let neg = (c = CHR ''-'');
               ds = (if c = CHR ''-'' \<or> c = CHR ''+'' then cs else s)
           in if ds = [] then Inl ErrSyntax
              else (case parse_uint ds 0 of
                      Inl e \<Rightarrow> Inl e
                    | Inr un \<Rightarrow>
                        if \<not> neg \<and> 9223372036854775808 \<le> un then Inl ErrRange
                        else if neg \<and> 9223372036854775808 < un then Inl ErrRange
                        else Inr (if neg then - un else un))))"

text \<open>\<open>strings.Split(s, sep)\<close> for a one-character separator: never the empty list.\<close>

fun Split :: "string \<Rightarrow> char \<Rightarrow> string list" where
  "Split [] c = [[]]"
| "Split (x # xs) c =
     (if x = c then [] # Split xs c
      else (case Split xs c of [] \<Rightarrow> [[x]] | p # ps \<Rightarrow> (x # p) # ps))"

text \<open>\<open>strings.SplitN(s, sep, 2)\<close>: cut at the first separator only.\<close>

fun SplitN2 :: "string \<Rightarrow> char \<Rightarrow> string list" where
  "SplitN2 [] c = [[]]"
| "SplitN2 (x # xs) c =
     (if x = c then [[], xs]
      else (case SplitN2 xs c of [] \<Rightarrow> [[x]] | p # ps \<Rightarrow> (x # p) # ps))"

section \<open>The parser\<close>

datatype parse_error =
    CantParseStep string numError
  | CantParseStart string numError
  | CantParseEnd string numError
  | OutOfBounds string int int
  | WrongFieldCount
  | UnknownLabel string

definition monthSubstitutions :: "string \<rightharpoonup> int" where
  "monthSubstitutions =
     map_of [(''jan'', 1), (''feb'', 2), (''mar'', 3), (''apr'', 4), (''may'', 5), (''jun'', 6),
             (''jul'', 7), (''aug'', 8), (''sep'', 9), (''oct'', 10), (''nov'', 11),
             (''dec'', 12)]"

definition weekdaySubstitutions :: "string \<rightharpoonup> int" where
  "weekdaySubstitutions =
     map_of [(''sun'', 0), (''mon'', 1), (''tue'', 2), (''wed'', 3), (''thu'', 4), (''fri'', 5),
             (''sat'', 6), (''7'', 0)]"

definition parseRangeSpec ::
  "string \<Rightarrow> field \<Rightarrow> (string \<rightharpoonup> int) \<Rightarrow> parse_error + rangeSpec" where
  "parseRangeSpec s f substitutions =
     (let slashParts = SplitN2 s (CHR ''/'');
          base = hd slashParts;
          stepR = (if length slashParts = 2
                   then (case Atoi (slashParts ! 1) of
                           Inl e \<Rightarrow> Inl (CantParseStep (slashParts ! 1) e)
                         | Inr v \<Rightarrow> Inr v)
                   else Inr 1)
      in case stepR of
           Inl e \<Rightarrow> Inl e
         | Inr stp \<Rightarrow>
             (let bounds =
                (if base = ''*'' \<or> base = ''?'' then Inr (fmin f, fmax f)
                 else
                   (let dashParts = SplitN2 base (CHR ''-'');
                        startR = (case substitutions (hd dashParts) of
                                    Some v \<Rightarrow> Inr v
                                  | None \<Rightarrow>
                                      (case Atoi (hd dashParts) of
                                         Inl e \<Rightarrow> Inl (CantParseStart (hd dashParts) e)
                                       | Inr v \<Rightarrow> Inr v))
                    in case startR of
                         Inl e \<Rightarrow> Inl e
                       | Inr st \<Rightarrow>
                           if 1 < length dashParts
                           then (case substitutions (dashParts ! 1) of
                                   Some v \<Rightarrow> Inr (st, v)
                                 | None \<Rightarrow>
                                     (case Atoi (dashParts ! 1) of
                                        Inl e \<Rightarrow> Inl (CantParseEnd (dashParts ! 1) e)
                                      | Inr v \<Rightarrow> Inr (st, v)))
                           else Inr (st, st)))
              in case bounds of
                   Inl e \<Rightarrow> Inl e
                 | Inr (st, en) \<Rightarrow>
                     (let r = \<lparr>start = st, endv = en, step = stp\<rparr>
                      in if \<not> rangeSpec_valid r f
                         then Inl (OutOfBounds (name f) (fmin f) (fmax f))
                         else Inr r)))"

fun parseRangeSpecs ::
  "string list \<Rightarrow> field \<Rightarrow> (string \<rightharpoonup> int) \<Rightarrow> listSpec \<Rightarrow> parse_error + listSpec" where
  "parseRangeSpecs [] f substitutions rangeSpecs = Inr rangeSpecs"
| "parseRangeSpecs (rangeString # rest) f substitutions rangeSpecs =
     (case parseRangeSpec rangeString f substitutions of
        Inl e \<Rightarrow> Inl e
      | Inr r \<Rightarrow> parseRangeSpecs rest f substitutions (rangeSpecs @ [r]))"

definition parseListSpec ::
  "string \<Rightarrow> field \<Rightarrow> (string \<rightharpoonup> int) \<Rightarrow> parse_error + listSpec" where
  "parseListSpec s f substitutions = parseRangeSpecs (Split s (CHR '','')) f substitutions []"

definition ParseSchedule :: "string list \<Rightarrow> parse_error + Schedule" where
  "ParseSchedule fs =
     (if length fs \<noteq> 5 then Inl WrongFieldCount
      else case parseListSpec (fs ! 0) minuteField Map.empty of
        Inl e \<Rightarrow> Inl e
      | Inr mi \<Rightarrow>
      (case parseListSpec (fs ! 1) hourField Map.empty of
        Inl e \<Rightarrow> Inl e
      | Inr h \<Rightarrow>
      (case parseListSpec (fs ! 2) dayField Map.empty of
        Inl e \<Rightarrow> Inl e
      | Inr d \<Rightarrow>
      (case parseListSpec (fs ! 3) monthField monthSubstitutions of
        Inl e \<Rightarrow> Inl e
      | Inr mo \<Rightarrow>
      (case parseListSpec (fs ! 4) weekdayField weekdaySubstitutions of
        Inl e \<Rightarrow> Inl e
      | Inr wd \<Rightarrow>
          Inr \<lparr>minute = mi, hour = h, day = d, month = mo, weekday = wd\<rparr>)))))"


text \<open>
  \<open>MustParseSchedule\<close> turns an error into a panic.  The table \<open>predefinedLabels\<close> is
  built with it when the package is initialised.
\<close>

datatype init_panic = MustParsePanic parse_error

definition MustParseSchedule :: "string list \<Rightarrow> init_panic + Schedule" where
  "MustParseSchedule fs =
     (case ParseSchedule fs of Inl e \<Rightarrow> Inl (MustParsePanic e) | Inr s \<Rightarrow> Inr s)"

definition predefinedLabels :: "string \<rightharpoonup> init_panic + Schedule" where
  "predefinedLabels =
     map_of [(''@yearly'', MustParseSchedule [''0'', ''0'', ''1'', ''1'', ''*'']),
             (''@annually'', MustParseSchedule [''0'', ''0'', ''1'', ''1'', ''*'']),
             (''@monthly'', MustParseSchedule [''0'', ''0'', ''1'', ''*'', ''*'']),
             (''@weekly'', MustParseSchedule [''0'', ''0'', ''*'', ''*'', ''0'']),
             (''@daily'', MustParseSchedule [''0'', ''0'', ''*'', ''*'', ''*'']),
             (''@midnight'', MustParseSchedule [''0'', ''0'', ''*'', ''*'', ''*'']),
             (''@hourly'', MustParseSchedule [''0'', ''*'', ''*'', ''*'', ''*''])]"

text \<open>
  A Go slice: the elements below its length, and the elements of its backing array
  between its length and its capacity.  \<open>s[lo:hi]\<close> may reach into the latter, and
  panics only when \<open>hi\<close> is beyond the capacity.
\<close>

datatype 'a slice = Slice (elems: "'a list") (spare: "'a list")

definition reslice :: "'a slice \<Rightarrow> nat \<Rightarrow> nat \<Rightarrow> panic + 'a list" where
  "reslice sl lo hi =
     (if lo \<le> hi \<and> hi \<le> length (elems sl) + length (spare sl)
      then Inr (take (hi - lo) (drop lo (elems sl @ spare sl)))
      else Inl SliceBoundsOutOfRange)"

text \<open>
  \<open>ParseEntry\<close>.  The splitter \<open>fieldsn.FieldsN\<close> belongs to another package, whose
  source is not part of this repository: it is the parameter \<open>fieldsN\<close>.  The result is
  a panic, a returned error, or an entry.
\<close>

definition ParseEntry ::
  "(string \<Rightarrow> nat \<Rightarrow> string slice) \<Rightarrow> string \<Rightarrow> panic + (parse_error + Entry)" where
  "ParseEntry fieldsN line =
     (case line of
        [] \<Rightarrow> Inl IndexOutOfRange
      | c # cs \<Rightarrow>
          if c = CHR ''@''
          then (let fs = fieldsN line 2
                in case elems fs of
                     [] \<Rightarrow> Inl IndexOutOfRange
                   | label # rest \<Rightarrow>
                       (case predefinedLabels label of
                          None \<Rightarrow> Inr (Inl (UnknownLabel label))
                        | Some (Inl ip) \<Rightarrow> Inr (Inl (case ip of MustParsePanic e \<Rightarrow> e))
                        | Some (Inr predefinedSchedule) \<Rightarrow>
                            Inr (Inr \<lparr>Schedule = predefinedSchedule,
                                      Command = (if 1 < length (elems fs) then elems fs ! 1
                                                 else [])\<rparr>)))
          else (let fs = fieldsN line 6
                in case reslice fs 0 5 of
                     Inl p \<Rightarrow> Inl p
                   | Inr fs5 \<Rightarrow>
                       (case ParseSchedule fs5 of
                          Inl e \<Rightarrow> Inr (Inl e)
                        | Inr parsedSchedule \<Rightarrow>
                            Inr (Inr \<lparr>Schedule = parsedSchedule,
                                      Command = (if 5 < length (elems fs) then elems fs ! 5
                                                 else [])\<rparr>))))"

text \<open>
  \<open>unicode.IsSpace\<close> on the UTF-8 bytes of a Go string: \<open>space_rune_len s\<close> is the
  number of bytes of the white-space rune that \<open>s\<close> starts with, and 0 when it starts
  with none.
\<close>

definition isSpace_ascii :: "char \<Rightarrow> bool" where
  "isSpace_ascii c \<longleftrightarrow>
     c = CHR 0x09 \<or> c = CHR 0x0A \<or> c = CHR 0x0B \<or> c = CHR 0x0C \<or> c = CHR 0x0D \<or> c = CHR 0x20"

definition space_runes2 :: "string list" where
  "space_runes2 = [[CHR 0xC2, CHR 0x85], [CHR 0xC2, CHR 0xA0]]"

definition space_runes3 :: "string list" where
  "space_runes3 =
     [[CHR 0xE1, CHR 0x9A, CHR 0x80],
      [CHR 0xE2, CHR 0x80, CHR 0x80], [CHR 0xE2, CHR 0x80, CHR 0x81],
      [CHR 0xE2, CHR 0x80, CHR 0x82], [CHR 0xE2, CHR 0x80, CHR 0x83],
      [CHR 0xE2, CHR 0x80, CHR 0x84], [CHR 0xE2, CHR 0x80, CHR 0x85],
      [CHR 0xE2, CHR 0x80, CHR 0x86], [CHR 0xE2, CHR 0x80, CHR 0x87],
      [CHR 0xE2, CHR 0x80, CHR 0x88], [CHR 0xE2, CHR 0x80, CHR 0x89],
      [CHR 0xE2, CHR 0x80, CHR 0x8A], [CHR 0xE2, CHR 0x80, CHR 0xA8],
      [CHR 0xE2, CHR 0x80, CHR 0xA9], [CHR 0xE2, CHR 0x80, CHR 0xAF],
      [CHR 0xE2, CHR 0x81, CHR 0x9F], [CHR 0xE3, CHR 0x80, CHR 0x80]]"

definition space_rune_len :: "string \<Rightarrow> nat" where
  "space_rune_len s =
     (case s of
        [] \<Rightarrow> 0
      | c # cs \<Rightarrow>
          if isSpace_ascii c then 1
          else if 2 \<le> length s \<and> take 2 s \<in> set space_runes2 then 2
          else if 3 \<le> length s \<and> take 3 s \<in> set space_runes3 then 3
          else 0)"

function TrimLeftSpace :: "string \<Rightarrow> string" where
  "TrimLeftSpace s =
     (if space_rune_len s = 0 then s else TrimLeftSpace (drop (space_rune_len s) s))"
  by pat_completeness auto
termination
  by (relation "measure length") (auto simp: space_rune_len_def split: list.splits if_splits)

declare TrimLeftSpace.simps [simp del]

text \<open>\<open>ParseCrontab\<close>: the loop over the lines, with the entries parsed so far.\<close>

fun ParseCrontab_lines ::
  "(string \<Rightarrow> nat \<Rightarrow> string slice) \<Rightarrow> string list \<Rightarrow> Entry list
     \<Rightarrow> panic + (parse_error + Entry list)" where
  "ParseCrontab_lines fieldsN [] entries = Inr (Inr entries)"
| "ParseCrontab_lines fieldsN (l # ls) entries =
     (let line = TrimLeftSpace l
      in if line = [] \<or> hd line = CHR ''#'' then ParseCrontab_lines fieldsN ls entries
         else (case ParseEntry fieldsN line of
                 Inl p \<Rightarrow> Inl p
               | Inr (Inl e) \<Rightarrow> Inr (Inl e)
               | Inr (Inr entry) \<Rightarrow> ParseCrontab_lines fieldsN ls (entries @ [entry])))"

definition ParseCrontab ::
  "(string \<Rightarrow> nat \<Rightarrow> string slice) \<Rightarrow> string \<Rightarrow> panic + (parse_error + Entry list)" where
  "ParseCrontab fieldsN s = ParseCrontab_lines fieldsN (Split s (CHR 0x0A)) []"

text \<open>
  Modelled from the spec: \<open>fieldsn.FieldsN\<close>, of package github.com/kevinwallace/fieldsn,
  whose source is not in this repository.  It is a bounded split on white space: at most
  \<open>n\<close> fields, and the last one is the rest of the line, kept as it is.  The spec does
  not say how large the backing array of the result is: \<open>c\<close> is its capacity (at least
  the number of fields), and the slots past the length hold empty strings.
\<close>

fun FieldsN_list :: "string \<Rightarrow> nat \<Rightarrow> string list" where
  "FieldsN_list s 0 = []"
| "FieldsN_list s (Suc n) =
     (let s' = dropWhile isSpace_ascii s
      in if s' = [] then []
         else if n = 0 then [s']
         else takeWhile (\<lambda>c. \<not> isSpace_ascii c) s'
                # FieldsN_list (dropWhile (\<lambda>c. \<not> isSpace_ascii c) s') n)"

definition FieldsN :: "nat \<Rightarrow> string \<Rightarrow> nat \<Rightarrow> string slice" where
  "FieldsN c s n =
     (let fs = FieldsN_list s n in Slice fs (replicate (c - length fs) []))"


section \<open>The supervisor (crony.go)\<close>

text \<open>
  \<open>t.Sub(u)\<close> is a duration in nanoseconds, and saturates at the limits of a 64-bit
  integer.
\<close>

definition Sub :: "Time \<Rightarrow> Time \<Rightarrow> int" where
  "Sub t u =
     (let d = (abs_seconds t - abs_seconds u) * 1000000000 + (Nanosecond t - Nanosecond u)
      in if d < - 9223372036854775808 then - 9223372036854775808
         else if 9223372036854775807 < d then 9223372036854775807
         else d)"








text \<open>
  \<open>executeEntry\<close>, one task.  What the task cannot decide is given by its environment,
  one record for each turn of the loop: the value of \<open>time.Now()\<close> when the timer is
  set, which case the \<open>select\<close> takes (\<open>stop = Some t\<close>: the value \<open>t\<close> was received from
  the stop channel; \<open>None\<close>: the timer fired), and the value of \<open>time.Now()\<close> after the
  command has run.  The timer of \<open>time.After(d)\<close> fires once \<open>d\<close> has passed, at once
  when \<open>d \<le> 0\<close>; the stop case can only be taken when a value is in the channel.
\<close>

record turn =
  clock :: Time
  stop :: "Time option"
  clock_after :: Time

datatype task_event =
    TimerSet int
  | Executed string
  | Resent Time
  | Overran

datatype task_end = Returned | Running Time | Panicked panic | Stuck

fun executeEntry :: "Entry \<Rightarrow> Time \<Rightarrow> turn list \<Rightarrow> task_event list \<times> task_end" where
  "executeEntry entry now [] = ([], Running now)"
| "executeEntry entry now (x # xs) =
     (case Next (Schedule entry) now of
        None \<Rightarrow> ([], Stuck)
      | Some (Inl p) \<Rightarrow> ([], Panicked p)
      | Some (Inr next) \<Rightarrow>
          (case stop x of
             None \<Rightarrow>
               (let evs = [TimerSet (Sub next (clock x)), Executed (Command entry)];
                    now' = clock_after x
                in case Next (Schedule entry) next of
                     None \<Rightarrow> (evs, Stuck)
                   | Some (Inl p) \<Rightarrow> (evs, Panicked p)
                   | Some (Inr next') \<Rightarrow>
                       (case executeEntry entry now' xs of
                          (evs', e) \<Rightarrow>
                            (evs @ (if \<not> Before now' next' then [Overran] else []) @ evs', e)))
           | Some t \<Rightarrow>
               ([TimerSet (Sub next (clock x)), Resent t]
                  @ (if \<not> Before t next then [Executed (Command entry)] else []),
                Returned)))"

section \<open>The specification's notions\<close>

text \<open>
  The data model of the specification: a range spec matches \<open>i\<close> iff
  \<open>start \<le> i \<le> end\<close> and \<open>(i - start) mod step = 0\<close>; its invariant is
  \<open>field.min \<le> start \<le> end \<le> field.max\<close> and \<open>step \<ge> 1\<close>; a list spec is a non-empty
  sequence of range specs and matches iff one of them does.
\<close>

definition range_hits :: "rangeSpec \<Rightarrow> int \<Rightarrow> bool" where
  "range_hits r i \<longleftrightarrow> start r \<le> i \<and> i \<le> endv r \<and> (i - start r) mod step r = 0"

definition list_hits :: "listSpec \<Rightarrow> int \<Rightarrow> bool" where
  "list_hits l i \<longleftrightarrow> (\<exists>r \<in> set l. range_hits r i)"

definition wf_range :: "field \<Rightarrow> rangeSpec \<Rightarrow> bool" where
  "wf_range f r \<longleftrightarrow> fmin f \<le> start r \<and> start r \<le> endv r \<and> endv r \<le> fmax f \<and> 1 \<le> step r"

definition wf_list :: "field \<Rightarrow> listSpec \<Rightarrow> bool" where
  "wf_list f l \<longleftrightarrow> l \<noteq> [] \<and> (\<forall>r \<in> set l. wf_range f r)"

definition wf_schedule :: "Schedule \<Rightarrow> bool" where
  "wf_schedule s \<longleftrightarrow>
     wf_list minuteField (minute s) \<and> wf_list hourField (hour s) \<and> wf_list dayField (day s)
       \<and> wf_list monthField (month s) \<and> wf_list weekdayField (weekday s)"

text \<open>
  The day rule: when the day field or the weekday field is a wildcard, both must match;
  when neither is, one of them must.
\<close>

definition day_rule :: "Schedule \<Rightarrow> Time \<Rightarrow> bool" where
  "day_rule s t \<longleftrightarrow>
     (if listSpec_wildcard (day s) dayField \<or> listSpec_wildcard (weekday s) weekdayField
      then list_hits (day s) (Day t) \<and> list_hits (weekday s) (Weekday t)
      else list_hits (day s) (Day t) \<or> list_hits (weekday s) (Weekday t))"

text \<open>An instant satisfies the five field constraints of a schedule.\<close>

definition satisfies :: "Schedule \<Rightarrow> Time \<Rightarrow> bool" where
  "satisfies s t \<longleftrightarrow>
     list_hits (minute s) (Minute t) \<and> list_hits (hour s) (Hour t)
       \<and> list_hits (month s) (Month t) \<and> day_rule s t"

text \<open>An instant at minute resolution: a valid time with no seconds and no nanoseconds.\<close>

definition minute_res :: "Time \<Rightarrow> bool" where
  "minute_res t \<longleftrightarrow> valid_time t \<and> Second t = 0 \<and> Nanosecond t = 0"

text \<open>The start of the minute that contains \<open>t\<close>.\<close>

definition minute_start :: "Time \<Rightarrow> Time" where
  "minute_start t = t\<lparr>Second := 0, Nanosecond := 0\<rparr>"

text \<open>
  The instants that \<open>Next s t\<close> may return: those at minute resolution, in the location
  of \<open>t\<close>, strictly after the start of the minute that contains \<open>t\<close>, that satisfy \<open>s\<close>.
\<close>

definition candidate :: "Schedule \<Rightarrow> Time \<Rightarrow> Time \<Rightarrow> bool" where
  "candidate s t m \<longleftrightarrow>
     minute_res m \<and> Location m = Location t \<and> Before (minute_start t) m \<and> satisfies s m"

section \<open>Schedules and times of the test suite\<close>

text \<open>The time that the tests write \<open>p("2006-01-02 15:04")\<close>, in UTC.\<close>

definition at_utc :: "int \<Rightarrow> int \<Rightarrow> int \<Rightarrow> int \<Rightarrow> int \<Rightarrow> Time" where
  "at_utc y mo d h mi =
     \<lparr>Year = y, Month = mo, Day = d, Hour = h, Minute = mi, Second = 0, Nanosecond = 0,
      Location = UTC\<rparr>"

definition single :: "int \<Rightarrow> listSpec" where
  "single v = [\<lparr>start = v, endv = v, step = 1\<rparr>]"

definition whole :: "field \<Rightarrow> listSpec" where
  "whole f = [\<lparr>start = fmin f, endv = fmax f, step = 1\<rparr>]"

text \<open>\<open>*/5 * * * *\<close>\<close>

definition every_five_minutes :: Schedule where
  "every_five_minutes =
     \<lparr>minute = [\<lparr>start = 0, endv = 59, step = 5\<rparr>], hour = whole hourField,
      day = whole dayField, month = whole monthField, weekday = whole weekdayField\<rparr>"


text \<open>\<open>0 0 31 2 *\<close>\<close>

definition february_31st :: Schedule where
  "february_31st =
     \<lparr>minute = single 0, hour = single 0, day = single 31, month = single 2,
      weekday = whole weekdayField\<rparr>"

text \<open>\<open>*/0 * * * *\<close>\<close>

definition zero_step :: Schedule where
  "zero_step =
     \<lparr>minute = [\<lparr>start = 0, endv = 59, step = 0\<rparr>], hour = whole hourField,
      day = whole dayField, month = whole monthField, weekday = whole weekdayField\<rparr>"

text \<open>A result of the loop of \<open>Next\<close> that is a time is the zero time or has the
  location of the candidate.\<close>

definition keeps_location :: "Time \<Rightarrow> panic + Time \<Rightarrow> bool" where
  "keeps_location t res =
     (case res of Inl p \<Rightarrow> True | Inr r \<Rightarrow> r = zeroTime \<or> Location r = Location t)"

section \<open>Locations are preserved\<close>

lemma Location_Date [simp]: "Location (Date y mo d h mi s ns l) = l"
  by (simp add: Date_def Let_def split: prod.splits)

lemma Location_AddDate [simp]: "Location (AddDate t a b c) = Location t"
  by (simp add: AddDate_def)

lemma Location_Add [simp]: "Location (Add t d) = Location t"
  by (simp add: Add_def)

lemma Next_loop_location:
  assumes "Next_loop s0 hz0 l0 t0 = Some res0"
  shows "keeps_location t0 res0"
proof (rule Next_loop.raw_induct [where P = "\<lambda>s hz l t res. keeps_location t res", OF _ assms],
    goal_cases)
  case (1 f s hz l t res)
  from 1(2) show ?case
    by (auto split: label.splits sum.splits if_splits simp: Let_def keeps_location_def
        dest!: 1(1))
qed

text \<open>
  C10.  Whenever \<open>Next s t\<close> returns a time other than the zero time, that time is in the
  location of \<open>t\<close>: every candidate of the search is built with \<open>t.Location()\<close>.  This
  holds for every schedule, well-formed or not.
\<close>

theorem Next_location:
  "Next s t = Some (Inr r) \<Longrightarrow> r \<noteq> zeroTime \<Longrightarrow> Location r = Location t"
  using Next_loop_location [of s "AddDate t 8 0 0" AtWrap _ "Inr r"]
  by (simp add: Next_def Let_def keeps_location_def)

theorem Next_location_witness:
  "Next every_five_minutes ((at_utc 2000 1 1 0 0)\<lparr>Location := FixedZone ''CET'' 3600\<rparr>)
     = Some (Inr ((at_utc 2000 1 1 0 5)\<lparr>Location := FixedZone ''CET'' 3600\<rparr>))
   \<and> (at_utc 2000 1 1 0 5)\<lparr>Location := FixedZone ''CET'' 3600\<rparr> \<noteq> zeroTime
   \<and> Location ((at_utc 2000 1 1 0 5)\<lparr>Location := FixedZone ''CET'' 3600\<rparr>)
       = Location ((at_utc 2000 1 1 0 0)\<lparr>Location := FixedZone ''CET'' 3600\<rparr>)"
proof -
  have a: "Next every_five_minutes ((at_utc 2000 1 1 0 0)\<lparr>Location := FixedZone ''CET'' 3600\<rparr>)
     = Some (Inr ((at_utc 2000 1 1 0 5)\<lparr>Location := FixedZone ''CET'' 3600\<rparr>))"
    by code_simp
  have b: "(at_utc 2000 1 1 0 5)\<lparr>Location := FixedZone ''CET'' 3600\<rparr> \<noteq> zeroTime"
    by (simp add: at_utc_def zeroTime_def)
  from Next_location [OF a b] a b show ?thesis by simp
qed

section \<open>The day rule\<close>



section \<open>The supervisor\<close>

text \<open>
  C6.  A task whose pending fire time is \<open>next\<close> and that receives the cutoff \<open>tcut\<close> from
  the stop channel puts the cutoff back, runs its command exactly once when \<open>tcut\<close> is
  not before \<open>next\<close>, does not run it when \<open>tcut\<close> is before \<open>next\<close>, and returns.
\<close>

theorem executeEntry_stop:
  "Next (Schedule entry) now = Some (Inr next) \<Longrightarrow> stop x = Some tcut \<Longrightarrow>
   executeEntry entry now (x # xs)
     = ([TimerSet (Sub next (clock x)), Resent tcut]
          @ (if Before tcut next then [] else [Executed (Command entry)]), Returned)"
  by simp

theorem executeEntry_stop_witness:
  "Next (Schedule \<lparr>Schedule = every_five_minutes, Command = ''make''\<rparr>) (at_utc 2000 1 1 0 0)
     = Some (Inr (at_utc 2000 1 1 0 5))
   \<and> stop \<lparr>clock = at_utc 2000 1 1 0 1, stop = Some (at_utc 2000 1 1 0 6),
           clock_after = at_utc 2000 1 1 0 1\<rparr> = Some (at_utc 2000 1 1 0 6)
   \<and> \<not> Before (at_utc 2000 1 1 0 6) (at_utc 2000 1 1 0 5)
   \<and> executeEntry \<lparr>Schedule = every_five_minutes, Command = ''make''\<rparr> (at_utc 2000 1 1 0 0)
        [\<lparr>clock = at_utc 2000 1 1 0 1, stop = Some (at_utc 2000 1 1 0 6),
          clock_after = at_utc 2000 1 1 0 1\<rparr>]
      = ([TimerSet 240000000000, Resent (at_utc 2000 1 1 0 6), Executed ''make''], Returned)"
proof -
  have a: "Next (Schedule \<lparr>Schedule = every_five_minutes, Command = ''make''\<rparr>)
             (at_utc 2000 1 1 0 0) = Some (Inr (at_utc 2000 1 1 0 5))"
    by code_simp
  have b: "stop \<lparr>clock = at_utc 2000 1 1 0 1, stop = Some (at_utc 2000 1 1 0 6),
                clock_after = at_utc 2000 1 1 0 1\<rparr> = Some (at_utc 2000 1 1 0 6)"
    by simp
  have c: "\<not> Before (at_utc 2000 1 1 0 6) (at_utc 2000 1 1 0 5)"
    by code_simp
  have d: "Sub (at_utc 2000 1 1 0 5) (at_utc 2000 1 1 0 1) = 240000000000"
    by code_simp
  from executeEntry_stop [OF a b, of "[]"] a b c d show ?thesis by simp
qed

text \<open>
  C4.  \<open>executeEntry\<close> does not look at the result of \<open>Next\<close> before it sets its timer.
  For the entry \<open>0 0 31 2 *\<close>, \<open>Next\<close> returns the zero time; the duration until then is
  negative, so with nothing in the stop channel the timer case is taken at once and the
  command is run.
\<close>

theorem executeEntry_fires_on_sentinel:
  "Next february_31st (at_utc 2000 1 1 0 0) = Some (Inr zeroTime)
   \<and> executeEntry \<lparr>Schedule = february_31st, Command = ''make''\<rparr> (at_utc 2000 1 1 0 0)
        [\<lparr>clock = at_utc 2000 1 1 0 0, stop = None, clock_after = at_utc 2000 1 1 0 0\<rparr>]
      = ([TimerSet (- 9223372036854775808), Executed ''make'', Overran],
         Running (at_utc 2000 1 1 0 0))"
proof -
  have a: "Next february_31st (at_utc 2000 1 1 0 0) = Some (Inr zeroTime)"
    by code_simp
  have b: "executeEntry \<lparr>Schedule = february_31st, Command = ''make''\<rparr> (at_utc 2000 1 1 0 0)
        [\<lparr>clock = at_utc 2000 1 1 0 0, stop = None, clock_after = at_utc 2000 1 1 0 0\<rparr>]
      = ([TimerSet (- 9223372036854775808), Executed ''make'', Overran],
         Running (at_utc 2000 1 1 0 0))"
    by code_simp
  from a b show ?thesis by simp
qed


section \<open>Parsing\<close>

text \<open>
  C8.  \<open>rangeSpec.valid\<close> looks at the bounds only.  The token \<open>*/0\<close> is parsed into a
  range spec with step 0, and \<open>*/-1\<close> into one with step -1; matching a value against
  the former divides by zero, and \<open>Next\<close> panics.
\<close>

theorem parseRangeSpec_zero_step:
  "parseRangeSpec ''*/0'' minuteField Map.empty = Inr \<lparr>start = 0, endv = 59, step = 0\<rparr>
   \<and> parseRangeSpec ''*/-1'' minuteField Map.empty = Inr \<lparr>start = 0, endv = 59, step = - 1\<rparr>
   \<and> rangeSpec_matches \<lparr>start = 0, endv = 59, step = 0\<rparr> 1 = Inl DivideByZero
   \<and> ParseSchedule [''*/0'', ''*'', ''*'', ''*'', ''*''] = Inr zero_step
   \<and> Next zero_step (at_utc 2000 1 1 0 0) = Some (Inl DivideByZero)"
proof -
  have a: "parseRangeSpec ''*/0'' minuteField Map.empty
             = Inr \<lparr>start = 0, endv = 59, step = 0\<rparr>"
    by code_simp
  have b: "parseRangeSpec ''*/-1'' minuteField Map.empty
             = Inr \<lparr>start = 0, endv = 59, step = - 1\<rparr>"
    by code_simp
  have c: "rangeSpec_matches \<lparr>start = 0, endv = 59, step = 0\<rparr> 1 = Inl DivideByZero"
    by code_simp
  have d: "ParseSchedule [''*/0'', ''*'', ''*'', ''*'', ''*''] = Inr zero_step"
    by code_simp
  have e: "Next zero_step (at_utc 2000 1 1 0 0) = Some (Inl DivideByZero)"
    by code_simp
  from a b c d e show ?thesis by simp
qed

section \<open>Lines with too few fields\<close>

lemma parseRangeSpec_not_count:
  "parseRangeSpec s f m \<noteq> Inl WrongFieldCount"
  by (auto simp: parseRangeSpec_def Let_def split: sum.splits option.splits if_splits prod.splits)

lemma parseRangeSpecs_not_count:
  "parseRangeSpecs ss f m acc \<noteq> Inl WrongFieldCount"
  by (induction ss arbitrary: acc) (auto simp: parseRangeSpec_not_count split: sum.splits)

lemma parseListSpec_not_count:
  "parseListSpec s f m \<noteq> Inl WrongFieldCount"
  by (simp add: parseListSpec_def parseRangeSpecs_not_count)

lemma ParseSchedule_count:
  "ParseSchedule fs = Inl WrongFieldCount \<longleftrightarrow> length fs \<noteq> 5"
  by (auto simp: ParseSchedule_def parseListSpec_not_count split: sum.splits)

lemma reslice_length:
  "reslice sl lo hi = Inr xs \<Longrightarrow> length xs = hi - lo"
  by (auto simp: reslice_def split: if_splits)

lemma predefinedLabels_parsed:
  "predefinedLabels label \<noteq> Some (Inl ip)"
proof -
  have 1: "MustParseSchedule [''0'', ''0'', ''1'', ''1'', ''*''] \<noteq> Inl ip" by code_simp
  have 2: "MustParseSchedule [''0'', ''0'', ''1'', ''*'', ''*''] \<noteq> Inl ip" by code_simp
  have 3: "MustParseSchedule [''0'', ''0'', ''*'', ''*'', ''0''] \<noteq> Inl ip" by code_simp
  have 4: "MustParseSchedule [''0'', ''0'', ''*'', ''*'', ''*''] \<noteq> Inl ip" by code_simp
  have 5: "MustParseSchedule [''0'', ''*'', ''*'', ''*'', ''*''] \<noteq> Inl ip" by code_simp
  from 1 2 3 4 5 show ?thesis
    by (simp add: predefinedLabels_def)
qed

text \<open>
  C7.  \<open>ParseEntry\<close> hands \<open>fields[0:5]\<close> to \<open>ParseSchedule\<close>, which has five elements
  whenever the slice expression does not panic.  So the test on the number of fields in
  \<open>ParseSchedule\<close> cannot fail there: whatever the splitter returns, \<open>ParseEntry\<close> never
  returns the wrong-field-count error.  For the line \<open>1 2 3\<close>, a split result with
  capacity 6 gives the error of an unparsable (empty) start value in the month field, and
  one with capacity 3 makes the slice expression panic.
\<close>

theorem ParseEntry_never_wrong_field_count:
  "ParseEntry fieldsN line \<noteq> Inr (Inl WrongFieldCount)
   \<and> ParseEntry (FieldsN 6) ''1 2 3'' = Inr (Inl (CantParseStart [] ErrSyntax))
   \<and> ParseEntry (FieldsN 3) ''1 2 3'' = Inl SliceBoundsOutOfRange"
proof -
  have a: "ParseEntry fieldsN line \<noteq> Inr (Inl WrongFieldCount)"
  proof (cases line)
    case Nil
    then show ?thesis by (simp add: ParseEntry_def)
  next
    case (Cons c cs)
    show ?thesis
    proof (cases "c = CHR ''@''")
      case True
      with Cons show ?thesis
        using predefinedLabels_parsed
        by (auto simp: ParseEntry_def Let_def split: list.splits option.splits sum.splits
            init_panic.splits)
    next
      case False
      with Cons show ?thesis
        using ParseSchedule_count reslice_length [of "fieldsN line 6" 0 5]
        by (auto simp: ParseEntry_def Let_def split: sum.splits)
    qed
  qed
  have b: "ParseEntry (FieldsN 6) ''1 2 3'' = Inr (Inl (CantParseStart [] ErrSyntax))"
    by code_simp
  have c: "ParseEntry (FieldsN 3) ''1 2 3'' = Inl SliceBoundsOutOfRange"
    by code_simp
  from a b c show ?thesis by simp
qed

end
